theory Spec2Isabelle
  imports Complex_Main "HOL-Library.Monad_Syntax"
begin

chapter \<open>Bare-soil model and cloud model of radar backscatter\<close>

text \<open>
  The notebook \<^verbatim>\<open>CloudModel.ipynb\<close> defines four functions on numpy values:
  \<^verbatim>\<open>bare_soil_model\<close>, \<^verbatim>\<open>dB2lin\<close>, \<^verbatim>\<open>lin2dB\<close> and \<^verbatim>\<open>cloud_model\<close>.
  They are embedded here operation by operation. Each body assigns local names only
  and calls numpy functions that return new values, so each is a function of its
  arguments.

  Numbers. A finite float is modelled by the real number it denotes, and a decimal
  literal such as \<^verbatim>\<open>2.8\<close> stands for the real \<open>28/10\<close>. The special values of
  IEEE 754 (the two infinities and not-a-number) are values of the model, with the IEEE
  rules for them; zero carries no sign. numpy signals an invalid operation, a division
  by zero, an overflow or an underflow by a warning and a special value, never by an
  exception, so these are values and not errors.

  The rounding error of an operation is not modelled; its range is. An operation on
  finite floats is read in one of two ways.
  \<^item> Exact: the operation on reals (\<open>f_add\<close>, \<open>f_mul\<close>, \<open>f_power\<close>, ...). This is the
    arithmetic of \<^verbatim>\<open>bare_soil_model\<close>: the cosine lies in \<open>[-1, 1]\<close>, its power in
    \<open>[0, 1]\<close>, and \<open>0.28 * mv\<close> is below the largest float for every float \<open>mv\<close>, so
    on floats none of its operations overflows, and the source differs from the exact
    result by rounding only.
  \<^item> In the range of binary64: the exact operation followed by \<open>b64\<close>, which turns an
    exact result that rounds to an infinity into that infinity and one that rounds to
    zero into zero (\<open>d_add\<close>, \<open>d_mul\<close>, \<open>d_exp\<close>, ...). This is the arithmetic of
    \<^verbatim>\<open>dB2lin\<close>, \<^verbatim>\<open>lin2dB\<close> and \<^verbatim>\<open>cloud_model\<close>, whose exponentials, powers
    and products do leave the range on floats.
\<close>

section \<open>Floating-point values\<close>

datatype npfloat = Fin real | PInf | NInf | NaN

fun f_neg :: "npfloat \<Rightarrow> npfloat" where
  "f_neg (Fin a) = Fin (- a)"
| "f_neg PInf = NInf"
| "f_neg NInf = PInf"
| "f_neg NaN = NaN"

fun f_add :: "npfloat \<Rightarrow> npfloat \<Rightarrow> npfloat" where
  "f_add NaN y = NaN"
| "f_add x NaN = NaN"
| "f_add (Fin a) (Fin b) = Fin (a + b)"
| "f_add PInf NInf = NaN"
| "f_add NInf PInf = NaN"
| "f_add PInf y = PInf"
| "f_add NInf y = NInf"
| "f_add (Fin a) y = y"

definition f_sub :: "npfloat \<Rightarrow> npfloat \<Rightarrow> npfloat" where
  "f_sub x y = f_add x (f_neg y)"

definition inf_of_sign :: "real \<Rightarrow> npfloat" where
  "inf_of_sign s = (if s = 0 then NaN else if 0 < s then PInf else NInf)"

fun f_sign :: "npfloat \<Rightarrow> real" where
  "f_sign (Fin a) = sgn a"
| "f_sign PInf = 1"
| "f_sign NInf = - 1"
| "f_sign NaN = 0"

fun f_mul :: "npfloat \<Rightarrow> npfloat \<Rightarrow> npfloat" where
  "f_mul NaN y = NaN"
| "f_mul x NaN = NaN"
| "f_mul (Fin a) (Fin b) = Fin (a * b)"
| "f_mul x y = inf_of_sign (f_sign x * f_sign y)"

fun f_div :: "npfloat \<Rightarrow> npfloat \<Rightarrow> npfloat" where
  "f_div NaN y = NaN"
| "f_div x NaN = NaN"
| "f_div (Fin a) (Fin b) = (if b \<noteq> 0 then Fin (a / b) else inf_of_sign (sgn a))"
| "f_div (Fin a) y = Fin 0"
| "f_div x (Fin b) = inf_of_sign (f_sign x * (if b < 0 then - 1 else 1))"
| "f_div x y = NaN"

fun f_cos :: "npfloat \<Rightarrow> npfloat" where
  "f_cos (Fin a) = Fin (cos a)"
| "f_cos x = NaN"

fun f_exp :: "npfloat \<Rightarrow> npfloat" where
  "f_exp (Fin a) = Fin (exp a)"
| "f_exp PInf = PInf"
| "f_exp NInf = Fin 0"
| "f_exp NaN = NaN"

fun f_log10 :: "npfloat \<Rightarrow> npfloat" where
  "f_log10 (Fin a) = (if 0 < a then Fin (log 10 a) else if a = 0 then NInf else NaN)"
| "f_log10 PInf = PInf"
| "f_log10 NInf = NaN"
| "f_log10 NaN = NaN"

definition is_int :: "real \<Rightarrow> bool" where
  "is_int y = (of_int \<lfloor>y\<rfloor> = y)"

fun f_power :: "npfloat \<Rightarrow> npfloat \<Rightarrow> npfloat" where
  "f_power x (Fin b) =
     (if b = 0 then Fin 1
      else case x of
        Fin a \<Rightarrow>
          (if 0 < a then Fin (a powr b)
           else if a = 0 then (if 0 < b then Fin 0 else PInf)
           else if is_int b then Fin (a powi \<lfloor>b\<rfloor>)
           else NaN)
      | PInf \<Rightarrow> (if 0 < b then PInf else Fin 0)
      | NInf \<Rightarrow> (if 0 < b then (if is_int b \<and> odd \<lfloor>b\<rfloor> then NInf else PInf) else Fin 0)
      | NaN \<Rightarrow> NaN)"
| "f_power x PInf =
     (case x of
        Fin a \<Rightarrow> (if \<bar>a\<bar> < 1 then Fin 0 else if \<bar>a\<bar> = 1 then Fin 1 else PInf)
      | NaN \<Rightarrow> NaN
      | _ \<Rightarrow> PInf)"
| "f_power x NInf =
     (case x of
        Fin a \<Rightarrow> (if \<bar>a\<bar> < 1 then PInf else if \<bar>a\<bar> = 1 then Fin 1 else Fin 0)
      | NaN \<Rightarrow> NaN
      | _ \<Rightarrow> Fin 0)"
| "f_power x NaN = (if x = Fin 1 then Fin 1 else NaN)"

fun f_le :: "npfloat \<Rightarrow> npfloat \<Rightarrow> bool" where
  "f_le NaN y = False"
| "f_le x NaN = False"
| "f_le (Fin a) (Fin b) = (a \<le> b)"
| "f_le NInf y = True"
| "f_le x PInf = True"
| "f_le x y = False"

text \<open>
  These are the exact operations: on two finite values the result is the real result,
  whatever its size. \<open>f_power\<close> follows the case table of C's \<^verbatim>\<open>pow\<close>, which both
  \<^verbatim>\<open>np.power\<close> and the operator \<^verbatim>\<open>**\<close> on a numpy float compute: a negative base
  with an exponent that is not an integer gives not-a-number. \<open>f_le\<close> is the
  comparison \<^verbatim>\<open><=\<close> of floats: false as soon as one side is not-a-number.
\<close>

section \<open>The range of binary64\<close>

text \<open>
  With rounding to nearest, a real of magnitude \<open>2 ^ 1024 - 2 ^ 970\<close> or more (half an
  ulp above the largest float) becomes an infinity, and one of magnitude
  \<open>1 / 2 ^ 1075\<close> or less (half the smallest subnormal) becomes zero. Every other real
  stands for the float nearest to it. An operation in the range of binary64 is the exact
  operation followed by \<open>to_range\<close>: \<^verbatim>\<open>np.exp(-2000)\<close> is zero, \<^verbatim>\<open>np.power(10, 400.0)\<close>
  and \<^verbatim>\<open>3 * 1e308\<close> are infinity.
\<close>

definition overflow_threshold :: real where
  "overflow_threshold = 2 ^ 1024 - 2 ^ 970"

definition underflow_threshold :: real where
  "underflow_threshold = 1 / 2 ^ 1075"

definition b64 :: "real \<Rightarrow> npfloat" where
  "b64 r =
     (if overflow_threshold \<le> \<bar>r\<bar> then (if 0 < r then PInf else NInf)
      else if \<bar>r\<bar> \<le> underflow_threshold then Fin 0
      else Fin r)"

definition in_range :: "real \<Rightarrow> bool" where
  "in_range r = (underflow_threshold < \<bar>r\<bar> \<and> \<bar>r\<bar> < overflow_threshold)"

fun to_range :: "npfloat \<Rightarrow> npfloat" where
  "to_range (Fin r) = b64 r"
| "to_range x = x"

definition d_add :: "npfloat \<Rightarrow> npfloat \<Rightarrow> npfloat" where
  "d_add x y = to_range (f_add x y)"

definition d_sub :: "npfloat \<Rightarrow> npfloat \<Rightarrow> npfloat" where
  "d_sub x y = to_range (f_sub x y)"

definition d_mul :: "npfloat \<Rightarrow> npfloat \<Rightarrow> npfloat" where
  "d_mul x y = to_range (f_mul x y)"

definition d_div :: "npfloat \<Rightarrow> npfloat \<Rightarrow> npfloat" where
  "d_div x y = to_range (f_div x y)"

definition d_exp :: "npfloat \<Rightarrow> npfloat" where
  "d_exp x = to_range (f_exp x)"

definition d_log10 :: "npfloat \<Rightarrow> npfloat" where
  "d_log10 x = to_range (f_log10 x)"

definition d_power :: "npfloat \<Rightarrow> npfloat \<Rightarrow> npfloat" where
  "d_power x y = to_range (f_power x y)"

section \<open>Arrays and broadcasting\<close>

text \<open>
  An argument is a scalar or a one-dimensional array. A unary numpy function maps over
  an array; a binary operation broadcasts: a scalar against every element, two arrays of
  one length pairwise, an array of length one against every element of the other, and
  two arrays of other lengths raise \<^verbatim>\<open>ValueError\<close>, which is the result
  \<open>None\<close> here.
\<close>

datatype ndarray = Scalar npfloat | Arr "npfloat list"

abbreviation lit :: "real \<Rightarrow> ndarray" where
  "lit x \<equiv> Scalar (Fin x)"

fun ufunc1 :: "(npfloat \<Rightarrow> npfloat) \<Rightarrow> ndarray \<Rightarrow> ndarray" where
  "ufunc1 f (Scalar a) = Scalar (f a)"
| "ufunc1 f (Arr xs) = Arr (map f xs)"

fun ufunc2 :: "(npfloat \<Rightarrow> npfloat \<Rightarrow> npfloat) \<Rightarrow> ndarray \<Rightarrow> ndarray \<Rightarrow> ndarray option" where
  "ufunc2 f (Scalar a) (Scalar b) = Some (Scalar (f a b))"
| "ufunc2 f (Scalar a) (Arr ys) = Some (Arr (map (f a) ys))"
| "ufunc2 f (Arr xs) (Scalar b) = Some (Arr (map (\<lambda>a. f a b) xs))"
| "ufunc2 f (Arr xs) (Arr ys) =
     (if length xs = length ys then Some (Arr (map2 f xs ys))
      else if length xs = 1 then Some (Arr (map (f (hd xs)) ys))
      else if length ys = 1 then Some (Arr (map (\<lambda>a. f a (hd ys)) xs))
      else None)"

text \<open>
  The operators of \<^verbatim>\<open>bare_soil_model\<close> (\<^verbatim>\<open>+\<close>, \<^verbatim>\<open>*\<close>, \<^verbatim>\<open>**\<close>) and the cosine,
  exact:
\<close>

definition np_cos :: "ndarray \<Rightarrow> ndarray" where
  "np_cos = ufunc1 f_cos"

definition nd_pow :: "ndarray \<Rightarrow> ndarray \<Rightarrow> ndarray option" where
  "nd_pow = ufunc2 f_power"

definition nd_add :: "ndarray \<Rightarrow> ndarray \<Rightarrow> ndarray option" where
  "nd_add = ufunc2 f_add"

definition nd_mul :: "ndarray \<Rightarrow> ndarray \<Rightarrow> ndarray option" where
  "nd_mul = ufunc2 f_mul"

text \<open>
  The numpy functions and the operators (\<^verbatim>\<open>+\<close>, \<^verbatim>\<open>-\<close>, \<^verbatim>\<open>*\<close>, \<^verbatim>\<open>/\<close>) of
  \<^verbatim>\<open>dB2lin\<close>, \<^verbatim>\<open>lin2dB\<close> and \<^verbatim>\<open>cloud_model\<close>, in the range of binary64:
\<close>

definition np_exp :: "ndarray \<Rightarrow> ndarray" where
  "np_exp = ufunc1 d_exp"

definition np_log10 :: "ndarray \<Rightarrow> ndarray" where
  "np_log10 = ufunc1 d_log10"

definition np_power :: "ndarray \<Rightarrow> ndarray \<Rightarrow> ndarray option" where
  "np_power = ufunc2 d_power"

definition fl_add :: "ndarray \<Rightarrow> ndarray \<Rightarrow> ndarray option" where
  "fl_add = ufunc2 d_add"

definition fl_sub :: "ndarray \<Rightarrow> ndarray \<Rightarrow> ndarray option" where
  "fl_sub = ufunc2 d_sub"

definition fl_mul :: "ndarray \<Rightarrow> ndarray \<Rightarrow> ndarray option" where
  "fl_mul = ufunc2 d_mul"

definition fl_div :: "ndarray \<Rightarrow> ndarray \<Rightarrow> ndarray option" where
  "fl_div = ufunc2 d_div"

section \<open>The bare-soil model\<close>

text \<open>
  \<^verbatim>\<open>
  def bare_soil_model(theta, mv):
      C1, C2, C3 = (-29.2, 27.2, 2.8)
      D = 0.28 # 0.32 also feasible
      C_theta = C1 + C2 * np.cos(theta) ** C3
      return C_theta + D * mv
  \<close>
\<close>

definition bare_soil_model :: "ndarray \<Rightarrow> ndarray \<Rightarrow> ndarray option" where
  "bare_soil_model theta mv =
     (let (C1, C2, C3) = (lit (- 29.2), lit 27.2, lit 2.8);
          D = lit 0.28
      in do {
        p \<leftarrow> nd_pow (np_cos theta) C3;
        q \<leftarrow> nd_mul C2 p;
        C_theta \<leftarrow> nd_add C1 q;
        r \<leftarrow> nd_mul D mv;
        nd_add C_theta r
      })"

section \<open>Unit conversion\<close>

text \<open>
  \<^verbatim>\<open>
  def dB2lin(x):
      return np.power(10, x/10)

  def lin2dB(x):
      return 10* np.log10(x)
  \<close>
\<close>

definition dB2lin :: "ndarray \<Rightarrow> ndarray option" where
  "dB2lin x = do { e \<leftarrow> fl_div x (lit 10); np_power (lit 10) e }"

definition lin2dB :: "ndarray \<Rightarrow> ndarray option" where
  "lin2dB x = fl_mul (lit 10) (np_log10 x)"

section \<open>The cloud model\<close>

text \<open>
  \<^verbatim>\<open>
  def cloud_model(theta, smc, alpha, tau):
      y2 = np.exp(-2*tau/np.cos(theta))
      sigma0_soil_dB = bare_soil_model(theta, smc)
      sigma0_soil_linear = dB2lin(sigma0_soil_dB)
      sigma0_can = ((3*alpha*np.cos(theta))/4 * (1-y2)) + (y2 * sigma0_soil_linear)
      return {"Canopy": lin2dB(sigma0_can),
              "Volume": lin2dB(((3*alpha*np.cos(theta))/4 * (1-y2))),
              "Soil": lin2dB(y2 * sigma0_soil_linear)}
  \<close>
  The source writes the expression \<^verbatim>\<open>(3*alpha*np.cos(theta))/4 * (1-y2)\<close> twice;
  \<open>volume_term\<close> is that expression, evaluated at both places. The dictionary is the
  list of its items in insertion order.
\<close>

definition volume_term :: "ndarray \<Rightarrow> ndarray \<Rightarrow> ndarray \<Rightarrow> ndarray option" where
  "volume_term alpha theta y2 = do {
     a \<leftarrow> fl_mul (lit 3) alpha;
     b \<leftarrow> fl_mul a (np_cos theta);
     c \<leftarrow> fl_div b (lit 4);
     d \<leftarrow> fl_sub (lit 1) y2;
     fl_mul c d
   }"

definition cloud_model ::
  "ndarray \<Rightarrow> ndarray \<Rightarrow> ndarray \<Rightarrow> ndarray \<Rightarrow> (string \<times> ndarray) list option" where
  "cloud_model theta smc alpha tau = do {
     n \<leftarrow> fl_mul (lit (- 2)) tau;
     q \<leftarrow> fl_div n (np_cos theta);
     let y2 = np_exp q;
     sigma0_soil_dB \<leftarrow> bare_soil_model theta smc;
     sigma0_soil_linear \<leftarrow> dB2lin sigma0_soil_dB;
     v \<leftarrow> volume_term alpha theta y2;
     s \<leftarrow> fl_mul y2 sigma0_soil_linear;
     sigma0_can \<leftarrow> fl_add v s;
     canopy \<leftarrow> lin2dB sigma0_can;
     v' \<leftarrow> volume_term alpha theta y2;
     volume \<leftarrow> lin2dB v';
     s' \<leftarrow> fl_mul y2 sigma0_soil_linear;
     soil \<leftarrow> lin2dB s';
     Some [(''Canopy'', canopy), (''Volume'', volume), (''Soil'', soil)]
   }"

section \<open>What one element goes through\<close>

text \<open>
  The functions below are not in the source. They name the chain of float operations
  that the source applies to one element of its arguments; the lemmas of the next
  section show that the embedded functions compute exactly these, on a scalar and on
  every element of an array.
\<close>

definition bare_soil_elem :: "npfloat \<Rightarrow> npfloat \<Rightarrow> npfloat" where
  "bare_soil_elem t m =
     f_add (f_add (Fin (- 29.2)) (f_mul (Fin 27.2) (f_power (f_cos t) (Fin 2.8))))
       (f_mul (Fin 0.28) m)"

definition dB2lin_elem :: "npfloat \<Rightarrow> npfloat" where
  "dB2lin_elem x = d_power (Fin 10) (d_div x (Fin 10))"

definition lin2dB_elem :: "npfloat \<Rightarrow> npfloat" where
  "lin2dB_elem x = d_mul (Fin 10) (d_log10 x)"

definition y2_elem :: "npfloat \<Rightarrow> npfloat \<Rightarrow> npfloat" where
  "y2_elem t tau = d_exp (d_div (d_mul (Fin (- 2)) tau) (f_cos t))"

definition volume_elem :: "npfloat \<Rightarrow> npfloat \<Rightarrow> npfloat \<Rightarrow> npfloat" where
  "volume_elem t alpha tau =
     d_mul (d_div (d_mul (d_mul (Fin 3) alpha) (f_cos t)) (Fin 4))
       (d_sub (Fin 1) (y2_elem t tau))"

definition soil_elem :: "npfloat \<Rightarrow> npfloat \<Rightarrow> npfloat \<Rightarrow> npfloat" where
  "soil_elem t smc tau = d_mul (y2_elem t tau) (dB2lin_elem (bare_soil_elem t smc))"

section \<open>Scalars and arrays go through the same operations\<close>

lemmas nd_defs =
  np_cos_def nd_pow_def nd_add_def nd_mul_def
  np_exp_def np_log10_def np_power_def fl_add_def fl_sub_def fl_mul_def fl_div_def

lemma map2_same: "map2 f (map g xs) (map h xs) = map (\<lambda>x. f (g x) (h x)) xs"
  by (induction xs) simp_all

lemma bare_soil_model_Scalar:
  "bare_soil_model (Scalar t) (Scalar m) = Some (Scalar (bare_soil_elem t m))"
  by (simp add: bare_soil_model_def bare_soil_elem_def nd_defs)

lemma bare_soil_model_Arr:
  "bare_soil_model (Arr ts) (Scalar m) = Some (Arr (map (\<lambda>t. bare_soil_elem t m) ts))"
  by (simp add: bare_soil_model_def bare_soil_elem_def nd_defs)

lemma dB2lin_Scalar: "dB2lin (Scalar x) = Some (Scalar (dB2lin_elem x))"
  by (simp add: dB2lin_def dB2lin_elem_def nd_defs)

lemma dB2lin_Arr: "dB2lin (Arr xs) = Some (Arr (map dB2lin_elem xs))"
  by (simp add: dB2lin_def dB2lin_elem_def nd_defs)

lemma lin2dB_Scalar: "lin2dB (Scalar x) = Some (Scalar (lin2dB_elem x))"
  by (simp add: lin2dB_def lin2dB_elem_def nd_defs)

lemma lin2dB_Arr: "lin2dB (Arr xs) = Some (Arr (map lin2dB_elem xs))"
  by (simp add: lin2dB_def lin2dB_elem_def nd_defs)

lemma volume_term_Scalar:
  "volume_term (Scalar alpha) (Scalar t) (Scalar (y2_elem t tau)) =
     Some (Scalar (volume_elem t alpha tau))"
  by (simp add: volume_term_def volume_elem_def nd_defs)

lemma volume_term_Arr:
  "volume_term (Scalar alpha) (Arr ts) (Arr (map (\<lambda>t. y2_elem t tau) ts)) =
     Some (Arr (map (\<lambda>t. volume_elem t alpha tau) ts))"
  by (simp add: volume_term_def volume_elem_def nd_defs zip_map_map zip_same_conv_map comp_def)

lemma cloud_model_Scalar:
  "cloud_model (Scalar t) (Scalar smc) (Scalar alpha) (Scalar tau) =
     Some [(''Canopy'', Scalar (lin2dB_elem (d_add (volume_elem t alpha tau) (soil_elem t smc tau)))),
           (''Volume'', Scalar (lin2dB_elem (volume_elem t alpha tau))),
           (''Soil'', Scalar (lin2dB_elem (soil_elem t smc tau)))]"
proof -
  have 1: "fl_mul (lit (- 2)) (Scalar tau) = Some (Scalar (d_mul (Fin (- 2)) tau))"
    by (simp add: nd_defs)
  have 2: "fl_div (Scalar (d_mul (Fin (- 2)) tau)) (np_cos (Scalar t)) =
             Some (Scalar (d_div (d_mul (Fin (- 2)) tau) (f_cos t)))"
    by (simp add: nd_defs)
  have 3: "np_exp (Scalar (d_div (d_mul (Fin (- 2)) tau) (f_cos t))) = Scalar (y2_elem t tau)"
    by (simp add: nd_defs y2_elem_def)
  have 4: "fl_mul (Scalar (y2_elem t tau)) (Scalar (dB2lin_elem (bare_soil_elem t smc))) =
             Some (Scalar (soil_elem t smc tau))"
    by (simp add: nd_defs soil_elem_def)
  have 5: "fl_add (Scalar (volume_elem t alpha tau)) (Scalar (soil_elem t smc tau)) =
             Some (Scalar (d_add (volume_elem t alpha tau) (soil_elem t smc tau)))"
    by (simp add: nd_defs)
  show ?thesis
    by (simp add: cloud_model_def 1 2 3 4 5 bare_soil_model_Scalar dB2lin_Scalar
        lin2dB_Scalar volume_term_Scalar)
qed

lemma cloud_model_Arr:
  "cloud_model (Arr ts) (Scalar smc) (Scalar alpha) (Scalar tau) =
     Some [(''Canopy'', Arr (map (\<lambda>t. lin2dB_elem (d_add (volume_elem t alpha tau) (soil_elem t smc tau))) ts)),
           (''Volume'', Arr (map (\<lambda>t. lin2dB_elem (volume_elem t alpha tau)) ts)),
           (''Soil'', Arr (map (\<lambda>t. lin2dB_elem (soil_elem t smc tau)) ts))]"
proof -
  have 1: "fl_mul (lit (- 2)) (Scalar tau) = Some (Scalar (d_mul (Fin (- 2)) tau))"
    by (simp add: nd_defs)
  have 2: "fl_div (Scalar (d_mul (Fin (- 2)) tau)) (np_cos (Arr ts)) =
             Some (Arr (map (\<lambda>t. d_div (d_mul (Fin (- 2)) tau) (f_cos t)) ts))"
    by (simp add: nd_defs comp_def)
  have 3: "np_exp (Arr (map (\<lambda>t. d_div (d_mul (Fin (- 2)) tau) (f_cos t)) ts)) =
             Arr (map (\<lambda>t. y2_elem t tau) ts)"
    by (simp add: nd_defs y2_elem_def comp_def)
  have 4: "fl_mul (Arr (map (\<lambda>t. y2_elem t tau) ts))
             (Arr (map (\<lambda>t. dB2lin_elem (bare_soil_elem t smc)) ts)) =
             Some (Arr (map (\<lambda>t. soil_elem t smc tau) ts))"
    by (simp add: nd_defs soil_elem_def map2_same comp_def)
  have 5: "fl_add (Arr (map (\<lambda>t. volume_elem t alpha tau) ts))
             (Arr (map (\<lambda>t. soil_elem t smc tau) ts)) =
             Some (Arr (map (\<lambda>t. d_add (volume_elem t alpha tau) (soil_elem t smc tau)) ts))"
    by (simp add: nd_defs map2_same)
  show ?thesis
    by (simp add: cloud_model_def 1 2 3 4 5 bare_soil_model_Arr dB2lin_Arr
        lin2dB_Arr volume_term_Arr comp_def Let_def)
qed

section \<open>Facts about the range\<close>

lemma underflow_threshold_pos: "0 < underflow_threshold"
  by (simp add: underflow_threshold_def)

lemma underflow_threshold_small: "underflow_threshold < 1 / 10 ^ 6"
  by (simp add: underflow_threshold_def)

lemma overflow_threshold_large: "10 ^ 6 < overflow_threshold"
  by (simp add: overflow_threshold_def)

lemma overflow_threshold_gt: "10 ^ 308 < overflow_threshold"
  by (simp add: overflow_threshold_def)

lemma pow10_400_overflow: "overflow_threshold \<le> 10 ^ 400"
  by (simp add: overflow_threshold_def)

lemma pow10_400_underflow: "1 / 10 ^ 400 \<le> underflow_threshold"
  by (simp add: underflow_threshold_def)

lemma exp_2000_overflow: "overflow_threshold \<le> exp 2000"
proof -
  have "(2::real) \<le> exp 1"
    using exp_ge_add_one_self [of "1::real"] by simp
  then have "(2::real) ^ 2000 \<le> exp 1 ^ 2000"
    by (intro power_mono) simp_all
  also have "exp (1::real) ^ 2000 = exp 2000"
    using exp_of_nat_mult [of 2000 "1::real"] by simp
  finally show ?thesis
    by (simp add: overflow_threshold_def)
qed

lemma thresholds_one: "underflow_threshold < 1" "1 < overflow_threshold"
  using underflow_threshold_small overflow_threshold_large by simp_all

lemma in_range_moderate:
  assumes "1 / 10 ^ 6 \<le> \<bar>r\<bar>" and "\<bar>r\<bar> \<le> 10 ^ 6"
  shows "in_range r"
  unfolding in_range_def
  using assms underflow_threshold_small overflow_threshold_large by linarith

lemma b64_0 [simp]: "b64 0 = Fin 0"
  using underflow_threshold_pos overflow_threshold_large by (simp add: b64_def)

lemma b64_in_range: "in_range r \<Longrightarrow> b64 r = Fin r"
  by (simp add: b64_def in_range_def)

lemma b64_1 [simp]: "b64 1 = Fin 1"
  by (rule b64_in_range, rule in_range_moderate) simp_all

lemma b64_cases:
  obtains "b64 r = Fin 0" and "\<bar>r\<bar> \<le> underflow_threshold"
  | "b64 r = Fin r" and "in_range r"
  | "b64 r = PInf" and "overflow_threshold \<le> r"
  | "b64 r = NInf" and "r \<le> - overflow_threshold"
  using underflow_threshold_pos overflow_threshold_large
  by (cases "overflow_threshold \<le> \<bar>r\<bar>"; cases "\<bar>r\<bar> \<le> underflow_threshold"; cases "0 < r")
    (auto simp: b64_def in_range_def)

lemma b64_overflow: "overflow_threshold \<le> r \<Longrightarrow> b64 r = PInf"
  using overflow_threshold_large by (simp add: b64_def)

lemma b64_underflow: "\<bar>r\<bar> \<le> underflow_threshold \<Longrightarrow> b64 r = Fin 0"
  using underflow_threshold_small overflow_threshold_large by (simp add: b64_def)

lemma b64_not_NaN [simp]: "b64 r \<noteq> NaN"
  by (simp add: b64_def)

lemma f_le_b64: "r \<le> s \<Longrightarrow> f_le (b64 r) (b64 s)"
  using underflow_threshold_pos overflow_threshold_large
  by (auto simp: b64_def abs_if split: if_splits)

lemma in_range_powr10:
  assumes "\<bar>e\<bar> \<le> 6"
  shows "in_range (10 powr e)"
proof (rule in_range_moderate)
  have m: "(10::real) powr (- 6) = 1 / 10 ^ 6"
    by (simp add: powr_minus_divide)
  have "(10::real) powr (- 6) \<le> 10 powr e"
    using assms by (intro powr_mono) simp_all
  then have "1 / 10 ^ 6 \<le> (10::real) powr e"
    by (simp only: m)
  then show "1 / 10 ^ 6 \<le> \<bar>(10::real) powr e\<bar>"
    by simp
  have "(10::real) powr e \<le> 10 powr 6"
    using assms by (intro powr_mono) simp_all
  then show "\<bar>(10::real) powr e\<bar> \<le> 10 ^ 6"
    by simp
qed

lemma underflow_threshold_lt: "underflow_threshold < 1 / 10 ^ 323"
  by (simp add: underflow_threshold_def)

lemma in_range_powr10_wide:
  assumes "- 323 \<le> e" and "e \<le> 308"
  shows "in_range (10 powr e)"
proof -
  have m: "(10::real) powr (- 323) = 1 / 10 ^ 323"
    unfolding powr_minus_divide by (subst powr_numeral) simp_all
  have p: "(10::real) powr 308 = 10 ^ 308"
    by (rule powr_numeral) simp
  have "(10::real) powr (- 323) \<le> 10 powr e"
    using assms by (intro powr_mono) simp_all
  with underflow_threshold_lt have "underflow_threshold < 10 powr e"
    unfolding m by (rule less_le_trans)
  moreover have "(10::real) powr e \<le> 10 powr 308"
    using assms by (intro powr_mono) simp_all
  then have "10 powr e < overflow_threshold"
    unfolding p using overflow_threshold_gt by (rule le_less_trans)
  ultimately show ?thesis
    by (simp add: in_range_def)
qed

lemma dB_range:
  assumes "x = 0 \<or> underflow_threshold < \<bar>x / 10\<bar>" and "- 3070 \<le> x" and "x \<le> 3080"
  shows "x = 0 \<or> in_range (x / 10)" and "in_range (10 powr (x / 10))"
proof -
  from assms(2,3) have "\<bar>x / 10\<bar> < 10 ^ 6"
    by simp
  then have "\<bar>x / 10\<bar> < overflow_threshold"
    using overflow_threshold_large by (rule less_trans)
  with assms(1) show "x = 0 \<or> in_range (x / 10)"
    by (auto simp: in_range_def)
  from assms(2,3) show "in_range (10 powr (x / 10))"
    by (intro in_range_powr10_wide) simp_all
qed

lemma pow10_308_overflow: "overflow_threshold \<le> 3 * 10 ^ 308"
  by (simp add: overflow_threshold_def)


section \<open>Finite inputs\<close>

lemma bare_soil_elem_Fin:
  "0 \<le> cos t \<Longrightarrow>
     bare_soil_elem (Fin t) (Fin m) = Fin (- 29.2 + 27.2 * cos t powr 2.8 + 0.28 * m)"
  by (simp add: bare_soil_elem_def)

lemma bare_soil_elem_NaN:
  "cos t < 0 \<Longrightarrow> bare_soil_elem (Fin t) (Fin m) = NaN"
  by (simp add: bare_soil_elem_def is_int_def)

lemma b64_zero_or_in_range: "r = 0 \<or> in_range r \<Longrightarrow> b64 r = Fin r"
  by (auto simp: b64_in_range)

lemma in_range_powr10_bound:
  assumes "in_range (10 powr e)"
  shows "\<bar>e\<bar> < 1075"
proof -
  have "(10::real) powr e < overflow_threshold"
    using assms by (simp add: in_range_def)
  also have "overflow_threshold \<le> 2 ^ 1024"
    by (simp add: overflow_threshold_def)
  also have "(2::real) ^ 1024 \<le> 10 ^ 1024"
    by (rule power_mono) simp_all
  also have "(10::real) ^ 1024 = 10 powr 1024"
    by (rule powr_numeral [symmetric]) simp
  finally have "(10::real) powr e < 10 powr 1024" .
  moreover have "((10::real) powr e < 10 powr 1024) = (e < 1024)"
    by (rule powr_less_cancel_iff) simp
  ultimately have up: "e < 1024"
    by (rule iffD1 [rotated])
  have "(10::real) powr (- 1075) = 1 / 10 ^ 1075"
    unfolding powr_minus by (subst powr_numeral) (simp_all only: divide_inverse mult_1 zero_le_numeral)
  also have "\<dots> \<le> 1 / 2 ^ 1075"
    by (intro divide_left_mono power_mono mult_pos_pos zero_less_power) simp_all
  also have "\<dots> = underflow_threshold"
    by (simp only: underflow_threshold_def)
  also have "underflow_threshold < 10 powr e"
    using assms by (simp add: in_range_def)
  finally have "(10::real) powr (- 1075) < 10 powr e" .
  moreover have "((10::real) powr (- 1075) < 10 powr e) = (- 1075 < e)"
    by (rule powr_less_cancel_iff) simp
  ultimately have "- 1075 < e"
    by (rule iffD1 [rotated])
  with up show ?thesis
    by simp
qed

lemma dB2lin_elem_Fin:
  assumes "x = 0 \<or> in_range (x / 10)" and "in_range (10 powr (x / 10))"
  shows "dB2lin_elem (Fin x) = Fin (10 powr (x / 10))"
proof -
  from assms(1) have e: "b64 (x / 10) = Fin (x / 10)"
    by (intro b64_zero_or_in_range) auto
  show ?thesis
    by (simp add: dB2lin_elem_def d_div_def d_power_def e b64_in_range [OF assms(2)])
qed

lemma lin2dB_elem_powr:
  assumes "x = 0 \<or> in_range (x / 10)" and "in_range (10 powr (x / 10))"
  shows "lin2dB_elem (Fin (10 powr (x / 10))) = Fin x"
proof -
  from assms(1) have e: "b64 (x / 10) = Fin (x / 10)"
    by (intro b64_zero_or_in_range) auto
  have "\<bar>x / 10\<bar> < 1075"
    using assms(2) by (rule in_range_powr10_bound)
  then have "\<bar>x\<bar> < 10 ^ 6"
    by simp
  then have up: "\<bar>x\<bar> < overflow_threshold"
    using overflow_threshold_large by linarith
  from assms(1) have "x = 0 \<or> underflow_threshold < \<bar>x\<bar>"
    using underflow_threshold_pos by (auto simp: in_range_def)
  with up have x: "b64 x = Fin x"
    by (intro b64_zero_or_in_range) (auto simp: in_range_def)
  have l: "f_log10 (Fin (10 powr (x / 10))) = Fin (x / 10)"
    by simp
  have m: "f_mul (Fin 10) (Fin (x / 10)) = Fin x"
    by simp
  show ?thesis
    by (simp only: lin2dB_elem_def d_log10_def d_mul_def l to_range.simps e m x)
qed

lemma lin2dB_elem_0 [simp]: "lin2dB_elem (Fin 0) = NInf"
  by (simp add: lin2dB_elem_def d_log10_def d_mul_def inf_of_sign_def)

lemma lin2dB_elem_neg: "x < 0 \<Longrightarrow> lin2dB_elem (Fin x) = NaN"
  by (simp add: lin2dB_elem_def d_log10_def d_mul_def)

lemma lin2dB_elem_NaN [simp]: "lin2dB_elem NaN = NaN"
  by (simp add: lin2dB_elem_def d_log10_def d_mul_def)

lemma lin2dB_elem_PInf [simp]: "lin2dB_elem PInf = PInf"
  by (simp add: lin2dB_elem_def d_log10_def d_mul_def inf_of_sign_def)

lemma b64_bounded:
  assumes "\<bar>r\<bar> < overflow_threshold"
  shows "\<exists>y. b64 r = Fin y \<and> \<bar>y\<bar> \<le> \<bar>r\<bar> \<and> (0 \<le> r \<longrightarrow> 0 \<le> y) \<and> (r \<le> 0 \<longrightarrow> y \<le> 0) \<and>
           (y = 0 \<or> underflow_threshold < \<bar>y\<bar>)"
  using assms by (auto simp: b64_def)

lemma b64_nonpos:
  assumes "r \<le> 0"
  shows "(\<exists>q. b64 r = Fin q \<and> q \<le> 0) \<or> b64 r = NInf"
  using assms by (auto simp: b64_def)

lemma y2_elem_tau_zero:
  assumes "cos t \<noteq> 0"
  shows "y2_elem (Fin t) (Fin 0) = Fin 1"
  using assms by (simp add: y2_elem_def d_mul_def d_div_def d_exp_def)

lemma d_exp_nonpos:
  assumes "q \<le> 0"
  shows "\<exists>y. d_exp (Fin q) = Fin y \<and> 0 \<le> y \<and> y \<le> 1"
proof -
  have e: "\<bar>exp q\<bar> \<le> 1"
    using assms by simp
  then have "\<bar>exp q\<bar> < overflow_threshold"
    using thresholds_one(2) by (rule le_less_trans)
  from b64_bounded [OF this] obtain y where y: "b64 (exp q) = Fin y" "\<bar>y\<bar> \<le> \<bar>exp q\<bar>" "0 \<le> y"
    by auto
  from y(2) e have "y \<le> 1"
    by linarith
  with y(1,3) show ?thesis
    by (simp add: d_exp_def)
qed

lemma y2_elem_unit:
  assumes "0 < cos t" and "0 \<le> tau"
  shows "\<exists>y. y2_elem (Fin t) (Fin tau) = Fin y \<and> 0 \<le> y \<and> y \<le> 1"
proof -
  have "- 2 * tau \<le> 0"
    using assms by simp
  from b64_nonpos [OF this] consider q where "b64 (- 2 * tau) = Fin q" "q \<le> 0"
    | "b64 (- 2 * tau) = NInf"
    by auto
  then have "(\<exists>q. d_div (d_mul (Fin (- 2)) (Fin tau)) (Fin (cos t)) = Fin q \<and> q \<le> 0) \<or>
      d_div (d_mul (Fin (- 2)) (Fin tau)) (Fin (cos t)) = NInf"
  proof cases
    case 1
    from 1(2) assms(1) have "q / cos t \<le> 0"
      by (simp add: divide_nonpos_pos)
    from b64_nonpos [OF this] 1(1) assms(1) show ?thesis
      by (auto simp: d_mul_def d_div_def)
  next
    case 2
    with assms(1) show ?thesis
      by (simp add: d_mul_def d_div_def inf_of_sign_def)
  qed
  then show ?thesis
  proof
    assume "\<exists>q. d_div (d_mul (Fin (- 2)) (Fin tau)) (Fin (cos t)) = Fin q \<and> q \<le> 0"
    then obtain q where "d_div (d_mul (Fin (- 2)) (Fin tau)) (Fin (cos t)) = Fin q" "q \<le> 0"
      by auto
    with d_exp_nonpos [of q] show ?thesis
      by (simp add: y2_elem_def)
  next
    assume "d_div (d_mul (Fin (- 2)) (Fin tau)) (Fin (cos t)) = NInf"
    then show ?thesis
      by (simp add: y2_elem_def d_exp_def)
  qed
qed

lemma volume_coeff:
  assumes "\<bar>3 * alpha\<bar> < overflow_threshold"
  shows "\<exists>a. d_div (d_mul (d_mul (Fin 3) (Fin alpha)) (Fin (cos t))) (Fin 4) = Fin a \<and>
           \<bar>a\<bar> \<le> \<bar>3 * alpha\<bar> \<and> (0 \<le> alpha \<and> 0 \<le> cos t \<longrightarrow> 0 \<le> a) \<and> (alpha = 0 \<longrightarrow> a = 0)"
proof -
  from b64_bounded [OF assms] obtain a1 where
    a1: "b64 (3 * alpha) = Fin a1" "\<bar>a1\<bar> \<le> \<bar>3 * alpha\<bar>" "0 \<le> 3 * alpha \<longrightarrow> 0 \<le> a1"
    by auto
  have "\<bar>a1 * cos t\<bar> \<le> \<bar>a1\<bar> * 1"
    unfolding abs_mult by (intro mult_left_mono) simp_all
  with a1(2) have b: "\<bar>a1 * cos t\<bar> \<le> \<bar>3 * alpha\<bar>"
    by simp
  with assms have "\<bar>a1 * cos t\<bar> < overflow_threshold"
    by simp
  from b64_bounded [OF this] obtain a2 where
    a2: "b64 (a1 * cos t) = Fin a2" "\<bar>a2\<bar> \<le> \<bar>a1 * cos t\<bar>" "0 \<le> a1 * cos t \<longrightarrow> 0 \<le> a2"
    by auto
  from a2(2) b have c: "\<bar>a2 / 4\<bar> \<le> \<bar>3 * alpha\<bar>"
    by simp
  with assms have "\<bar>a2 / 4\<bar> < overflow_threshold"
    by simp
  from b64_bounded [OF this] obtain a3 where
    a3: "b64 (a2 / 4) = Fin a3" "\<bar>a3\<bar> \<le> \<bar>a2 / 4\<bar>" "0 \<le> a2 / 4 \<longrightarrow> 0 \<le> a3"
    by auto
  have "d_div (d_mul (d_mul (Fin 3) (Fin alpha)) (Fin (cos t))) (Fin 4) = Fin a3"
    by (simp add: d_mul_def d_div_def a1 a2 a3)
  moreover from a3(2) c have "\<bar>a3\<bar> \<le> \<bar>3 * alpha\<bar>"
    by simp
  moreover have "0 \<le> a3" if "0 \<le> alpha" "0 \<le> cos t"
    using that a1(3) a2(3) a3(3) by simp
  ultimately show ?thesis
    by auto
qed

lemma volume_elem_tau_zero:
  assumes "cos t \<noteq> 0" and "\<bar>3 * alpha\<bar> < overflow_threshold"
  shows "volume_elem (Fin t) (Fin alpha) (Fin 0) = Fin 0"
proof -
  from volume_coeff [OF assms(2)] obtain a where
    "d_div (d_mul (d_mul (Fin 3) (Fin alpha)) (Fin (cos t))) (Fin 4) = Fin a"
    by blast
  then show ?thesis
    by (simp add: volume_elem_def y2_elem_tau_zero [OF assms(1)] d_sub_def d_mul_def f_sub_def)
qed

lemma volume_elem_alpha_zero:
  assumes "0 < cos t" and "0 \<le> tau"
  shows "volume_elem (Fin t) (Fin 0) (Fin tau) = Fin 0"
proof -
  from y2_elem_unit [OF assms] obtain y where y: "y2_elem (Fin t) (Fin tau) = Fin y" "0 \<le> y" "y \<le> 1"
    by auto
  then have "\<bar>1 - y\<bar> \<le> 1"
    by simp
  then have "\<bar>1 - y\<bar> < overflow_threshold"
    using thresholds_one(2) by (rule le_less_trans)
  from b64_bounded [OF this] obtain w where "b64 (1 - y) = Fin w"
    by auto
  then show ?thesis
    by (simp add: volume_elem_def y d_sub_def d_mul_def d_div_def f_sub_def)
qed

text \<open>
  The exact arithmetic of \<open>bare_soil_model\<close> stays below the overflow threshold: for
  every \<open>mv\<close> of the magnitude of a float, each of its intermediate results is of
  smaller magnitude than the threshold, so none of its operations rounds to an
  infinity.
\<close>

lemma bare_soil_no_overflow:
  assumes "0 \<le> cos t" and "\<bar>m\<bar> < overflow_threshold"
  shows "\<bar>cos t powr 2.8\<bar> < overflow_threshold"
    and "\<bar>27.2 * cos t powr 2.8\<bar> < overflow_threshold"
    and "\<bar>- 29.2 + 27.2 * cos t powr 2.8\<bar> < overflow_threshold"
    and "\<bar>0.28 * m\<bar> < overflow_threshold"
    and "\<bar>- 29.2 + 27.2 * cos t powr 2.8 + 0.28 * m\<bar> < overflow_threshold"
proof -
  have p: "0 \<le> cos t powr 2.8" "cos t powr 2.8 \<le> 1"
    using assms(1) by (simp_all add: powr_le1)
  have big: "1000000 < overflow_threshold"
    using overflow_threshold_large by simp
  from p big show "\<bar>cos t powr 2.8\<bar> < overflow_threshold"
    by linarith
  from p big show "\<bar>27.2 * cos t powr 2.8\<bar> < overflow_threshold"
    by linarith
  from p big show "\<bar>- 29.2 + 27.2 * cos t powr 2.8\<bar> < overflow_threshold"
    by linarith
  have m: "\<bar>0.28 * m\<bar> \<le> 0.28 * \<bar>m\<bar>"
    by (simp add: abs_mult)
  with assms(2) show "\<bar>0.28 * m\<bar> < overflow_threshold"
    by simp
  have "\<bar>- 29.2 + 27.2 * cos t powr 2.8 + 0.28 * m\<bar> \<le>
      \<bar>- 29.2 + 27.2 * cos t powr 2.8\<bar> + \<bar>0.28 * m\<bar>"
    by (rule abs_triangle_ineq)
  also have "\<dots> \<le> 30 + 0.28 * \<bar>m\<bar>"
  proof (rule add_mono)
    from p show "\<bar>- 29.2 + 27.2 * cos t powr 2.8\<bar> \<le> 30"
      by linarith
  qed (rule m)
  also have "\<dots> < overflow_threshold"
    using assms(2) big by simp
  finally show "\<bar>- 29.2 + 27.2 * cos t powr 2.8 + 0.28 * m\<bar> < overflow_threshold" .
qed

section \<open>Where the range is left\<close>

lemma volume_elem_overflow:
  assumes "overflow_threshold \<le> 3 * alpha" and "0 < cos t"
  shows "volume_elem (Fin t) (Fin alpha) (Fin 0) = NaN"
proof -
  from assms(2) have nz: "cos t \<noteq> 0"
    by simp
  have "d_mul (Fin 3) (Fin alpha) = PInf"
    by (simp add: d_mul_def b64_overflow [OF assms(1)])
  with assms(2) have "d_div (d_mul (d_mul (Fin 3) (Fin alpha)) (Fin (cos t))) (Fin 4) = PInf"
    by (simp add: d_mul_def d_div_def inf_of_sign_def)
  then show ?thesis
    by (simp add: volume_elem_def y2_elem_tau_zero [OF nz] d_sub_def f_sub_def d_mul_def
        inf_of_sign_def)
qed

lemma bare_soil_model_0_0: "bare_soil_model (lit 0) (lit 0) = Some (lit (- 2))"
  by (simp add: bare_soil_model_Scalar bare_soil_elem_Fin)

lemma cloud_model_alpha_overflow:
  "cloud_model (lit 0) (lit 0) (lit (10 ^ 308)) (lit 0) =
     Some [(''Canopy'', Scalar NaN), (''Volume'', Scalar NaN), (''Soil'', lit (- 2))]"
proof -
  have vol: "volume_elem (Fin 0) (Fin (10 ^ 308)) (Fin 0) = NaN"
    using pow10_308_overflow by (rule volume_elem_overflow) simp
  have bs: "bare_soil_elem (Fin 0) (Fin 0) = Fin (- 2)"
    by (simp add: bare_soil_elem_Fin)
  have r: "(- 2 :: real) = 0 \<or> in_range (- 2 / 10)" "in_range (10 powr (- 2 / 10))"
    by (simp_all add: in_range_moderate in_range_powr10)
  have soil: "soil_elem (Fin 0) (Fin 0) (Fin 0) = Fin (10 powr (- 2 / 10))"
    unfolding soil_elem_def bs dB2lin_elem_Fin [OF r] y2_elem_tau_zero [of 0, simplified]
    by (simp only: d_mul_def f_mul.simps mult_1 to_range.simps b64_in_range [OF r(2)])
  have dB: "lin2dB_elem (Fin (10 powr (- 2 / 10))) = Fin (- 2)"
    using r by (rule lin2dB_elem_powr)
  show ?thesis
    by (simp only: cloud_model_Scalar vol soil dB d_add_def f_add.simps to_range.simps
        lin2dB_elem_NaN)
qed

lemma y2_elem_overflow: "y2_elem (Fin 2) (Fin 1000) = PInf"
proof -
  have c: "cos (2::real) < 0" "- 1 \<le> cos (2::real)"
    by simp_all
  have m: "d_mul (Fin (- 2)) (Fin 1000) = Fin (- 2000)"
    by (simp add: d_mul_def b64_in_range in_range_moderate)
  from c have q: "2000 \<le> - 2000 / cos (2::real)"
    by (simp add: field_simps)
  have e: "overflow_threshold \<le> exp (- 2000 / cos 2)"
    using exp_2000_overflow q by (meson exp_le_cancel_iff order_trans)
  have "d_exp (b64 (- 2000 / cos 2)) = PInf"
  proof (cases "- 2000 / cos (2::real)" rule: b64_cases)
    case 1
    with q thresholds_one(1) show ?thesis
      by simp
  next
    case 2
    with e show ?thesis
      by (simp add: d_exp_def b64_overflow)
  next
    case 3
    then show ?thesis
      by (simp add: d_exp_def)
  next
    case 4
    with q thresholds_one(2) show ?thesis
      by simp
  qed
  with c(1) show ?thesis
    by (simp add: y2_elem_def m d_div_def)
qed

section \<open>Order of the canopy and its two terms\<close>

lemma to_range_not_NaN: "x \<noteq> NaN \<Longrightarrow> to_range x \<noteq> NaN"
  by (cases x) simp_all

lemma to_range_mono: "f_le x y \<Longrightarrow> f_le (to_range x) (to_range y)"
proof (cases x; cases y)
  fix a b
  assume "f_le x y" "x = Fin a" "y = Fin b"
  then show ?thesis
    by (simp add: f_le_b64)
next
  fix a
  assume "x = Fin a" "y = PInf"
  then show ?thesis
    by (cases a rule: b64_cases) simp_all
next
  fix b
  assume "x = NInf" "y = Fin b"
  then show ?thesis
    by (cases b rule: b64_cases) simp_all
qed simp_all

lemma f_mul10_mono: "f_le x y \<Longrightarrow> f_le (f_mul (Fin 10) x) (f_mul (Fin 10) y)"
  by (cases x; cases y) (simp_all add: inf_of_sign_def)

lemma f_log10_mono:
  assumes "0 \<le> r" and "r \<le> s"
  shows "f_le (f_log10 (Fin r)) (f_log10 (Fin s))"
  using assms by auto

lemma lin2dB_elem_mono:
  assumes "0 \<le> r" and "f_le (Fin r) y"
  shows "f_le (lin2dB_elem (Fin r)) (lin2dB_elem y)"
proof (cases y)
  case (Fin s)
  with assms have "f_le (f_log10 (Fin r)) (f_log10 (Fin s))"
    by (intro f_log10_mono) simp_all
  then show ?thesis
    unfolding Fin lin2dB_elem_def d_mul_def d_log10_def
    by (intro to_range_mono f_mul10_mono)
next
  case PInf
  have "f_log10 (Fin r) \<noteq> NaN"
    using assms(1) by simp
  then have "d_mul (Fin 10) (d_log10 (Fin r)) \<noteq> NaN"
    unfolding d_mul_def d_log10_def
    by (cases "f_log10 (Fin r)"; cases "to_range (f_log10 (Fin r))")
      (auto simp: inf_of_sign_def intro: to_range_not_NaN dest: sym)
  then have "lin2dB_elem (Fin r) \<noteq> NaN"
    unfolding lin2dB_elem_def .
  then show ?thesis
    unfolding PInf lin2dB_elem_PInf
    by (cases "lin2dB_elem (Fin r)") simp_all
next
  case NInf
  with assms show ?thesis by simp
next
  case NaN
  with assms show ?thesis by simp
qed

lemma f_le_sum:
  assumes "0 \<le> v" and "0 \<le> s" and "v = 0 \<or> underflow_threshold < \<bar>v\<bar>"
  shows "f_le (Fin v) (d_add (Fin v) (Fin s))"
proof (cases "v + s" rule: b64_cases)
  case 1
  with assms underflow_threshold_pos show ?thesis
    by (auto simp: d_add_def)
next
  case 2
  with assms show ?thesis
    by (simp add: d_add_def)
next
  case 3
  then show ?thesis
    by (simp add: d_add_def)
next
  case 4
  with assms thresholds_one(2) show ?thesis
    by simp
qed

lemma dB2lin_bounded:
  assumes "0 \<le> cos t" and "smc \<le> 11000"
  shows "\<exists>d. dB2lin_elem (bare_soil_elem (Fin t) (Fin smc)) = Fin d \<and> 0 \<le> d \<and> d < overflow_threshold"
proof -
  let ?s = "- 29.2 + 27.2 * cos t powr 2.8 + 0.28 * smc"
  have "cos t powr 2.8 \<le> 1"
    using assms(1) by (intro powr_le1) simp_all
  with assms(2) have s: "?s / 10 \<le> 308"
    by simp
  have bs: "bare_soil_elem (Fin t) (Fin smc) = Fin ?s"
    using assms(1) by (rule bare_soil_elem_Fin)
  have "\<exists>d. d_power (Fin 10) (b64 (?s / 10)) = Fin d \<and> 0 \<le> d \<and> d < overflow_threshold"
  proof (cases "?s / 10" rule: b64_cases)
    case 1
    then show ?thesis
      using thresholds_one(2) by (simp add: d_power_def)
  next
    case 2
    have "(10::real) powr (?s / 10) \<le> 10 powr 308"
      using s by (intro powr_mono) simp_all
    also have "\<dots> = 10 ^ 308"
      by (rule powr_numeral) simp
    also note overflow_threshold_gt
    finally have up: "\<bar>10 powr (?s / 10)\<bar> < overflow_threshold"
      by simp
    from b64_bounded [OF this] obtain y where
      "b64 (10 powr (?s / 10)) = Fin y" "\<bar>y\<bar> \<le> \<bar>10 powr (?s / 10)\<bar>" "0 \<le> y"
      by auto
    with up 2 show ?thesis
      by (auto simp: d_power_def)
  next
    case 3
    with s overflow_threshold_large show ?thesis
      by simp
  next
    case 4
    then show ?thesis
      using thresholds_one(2) by (simp add: d_power_def)
  qed
  then show ?thesis
    by (simp add: dB2lin_elem_def bs d_div_def)
qed

lemma product_bounded:
  assumes "0 \<le> a" and "a < overflow_threshold" and "0 \<le> w" and "w \<le> 1"
  shows "\<exists>v. d_mul (Fin a) (Fin w) = Fin v \<and> 0 \<le> v \<and> (v = 0 \<or> underflow_threshold < \<bar>v\<bar>)"
proof -
  have "a * w \<le> a * 1"
    using assms by (intro mult_left_mono) simp_all
  with assms have "\<bar>a * w\<bar> < overflow_threshold"
    by simp
  from b64_bounded [OF this] assms show ?thesis
    by (auto simp: d_mul_def)
qed

lemma canopy_dominates_elem:
  assumes "0 < cos t" and "0 \<le> alpha" and "3 * alpha < overflow_threshold" and "0 \<le> tau"
    and "smc \<le> 11000"
  shows "\<exists>V S. volume_elem (Fin t) (Fin alpha) (Fin tau) = Fin V \<and> 0 \<le> V \<and>
           soil_elem (Fin t) (Fin smc) (Fin tau) = Fin S \<and> 0 \<le> S \<and>
           f_le (lin2dB_elem (Fin V)) (lin2dB_elem (d_add (Fin V) (Fin S))) \<and>
           f_le (lin2dB_elem (Fin S)) (lin2dB_elem (d_add (Fin V) (Fin S)))"
proof -
  from y2_elem_unit [OF assms(1,4)] obtain y where
    y: "y2_elem (Fin t) (Fin tau) = Fin y" "0 \<le> y" "y \<le> 1"
    by auto
  from assms(2,3) have "\<bar>3 * alpha\<bar> < overflow_threshold"
    by simp
  from volume_coeff [OF this, of t] assms(1,2) obtain a where
    a: "d_div (d_mul (d_mul (Fin 3) (Fin alpha)) (Fin (cos t))) (Fin 4) = Fin a"
      "\<bar>a\<bar> \<le> \<bar>3 * alpha\<bar>" "0 \<le> a"
    by auto
  from a(2,3) assms(2,3) have a_up: "a < overflow_threshold"
    by simp
  from y have "\<bar>1 - y\<bar> \<le> 1"
    by simp
  then have "\<bar>1 - y\<bar> < overflow_threshold"
    using thresholds_one(2) by (rule le_less_trans)
  from b64_bounded [OF this] y obtain w where
    w: "b64 (1 - y) = Fin w" "0 \<le> w" "w \<le> 1"
    by auto
  from product_bounded [OF a(3) a_up w(2,3)] obtain V where
    V: "d_mul (Fin a) (Fin w) = Fin V" "0 \<le> V" "V = 0 \<or> underflow_threshold < \<bar>V\<bar>"
    by auto
  have vol: "volume_elem (Fin t) (Fin alpha) (Fin tau) = Fin V"
    by (simp add: volume_elem_def a(1) y(1) d_sub_def f_sub_def w(1) V(1))
  from assms(1) have "0 \<le> cos t"
    by simp
  from dB2lin_bounded [OF this assms(5)] obtain d where
    d: "dB2lin_elem (bare_soil_elem (Fin t) (Fin smc)) = Fin d" "0 \<le> d" "d < overflow_threshold"
    by auto
  from product_bounded [OF d(2,3) y(2,3)] obtain S where
    S: "d_mul (Fin d) (Fin y) = Fin S" "0 \<le> S" "S = 0 \<or> underflow_threshold < \<bar>S\<bar>"
    by auto
  have "d_mul (Fin y) (Fin d) = d_mul (Fin d) (Fin y)"
    by (simp add: d_mul_def mult.commute)
  with S(1) have soil: "soil_elem (Fin t) (Fin smc) (Fin tau) = Fin S"
    by (simp add: soil_elem_def y(1) d(1))
  have 1: "f_le (Fin V) (d_add (Fin V) (Fin S))"
    using V(2) S(2) V(3) by (rule f_le_sum)
  have "f_le (Fin S) (d_add (Fin S) (Fin V))"
    using S(2) V(2) S(3) by (rule f_le_sum)
  moreover have "d_add (Fin S) (Fin V) = d_add (Fin V) (Fin S)"
    by (simp add: d_add_def add.commute)
  ultimately have 2: "f_le (Fin S) (d_add (Fin V) (Fin S))"
    by simp
  from vol soil V(2) S(2) lin2dB_elem_mono [OF V(2) 1] lin2dB_elem_mono [OF S(2) 2]
  show ?thesis
    by blast
qed

lemma canopy_dominates_Scalar:
  assumes "0 < cos theta" and "0 \<le> alpha" and "3 * alpha < overflow_threshold" and "0 \<le> tau"
    and "smc \<le> 11000"
  shows "\<exists>y2 V S canopy volume soil.
           map_option np_exp (fl_mul (lit (- 2)) (lit tau) \<bind> (\<lambda>n. fl_div n (np_cos (lit theta)))) =
             Some y2 \<and>
           volume_term (lit alpha) (lit theta) y2 = Some (lit V) \<and> 0 \<le> V \<and>
           bare_soil_model (lit theta) (lit smc) \<bind> dB2lin \<bind> fl_mul y2 = Some (lit S) \<and> 0 \<le> S \<and>
           lin2dB (lit V) = Some (Scalar volume) \<and>
           lin2dB (lit S) = Some (Scalar soil) \<and>
           fl_add (lit V) (lit S) \<bind> lin2dB = Some (Scalar canopy) \<and>
           cloud_model (lit theta) (lit smc) (lit alpha) (lit tau) =
             Some [(''Canopy'', Scalar canopy), (''Volume'', Scalar volume), (''Soil'', Scalar soil)] \<and>
           f_le volume canopy \<and> f_le soil canopy"
proof -
  from canopy_dominates_elem [OF assms] obtain V S where
    e: "volume_elem (Fin theta) (Fin alpha) (Fin tau) = Fin V" "0 \<le> V"
      "soil_elem (Fin theta) (Fin smc) (Fin tau) = Fin S" "0 \<le> S"
      "f_le (lin2dB_elem (Fin V)) (lin2dB_elem (d_add (Fin V) (Fin S)))"
      "f_le (lin2dB_elem (Fin S)) (lin2dB_elem (d_add (Fin V) (Fin S)))"
    by blast
  have y: "map_option np_exp (fl_mul (lit (- 2)) (lit tau) \<bind> (\<lambda>n. fl_div n (np_cos (lit theta)))) =
      Some (Scalar (y2_elem (Fin theta) (Fin tau)))"
    by (simp add: nd_defs y2_elem_def)
  have v: "volume_term (lit alpha) (lit theta) (Scalar (y2_elem (Fin theta) (Fin tau))) = Some (lit V)"
    by (simp add: volume_term_Scalar e(1))
  have s: "bare_soil_model (lit theta) (lit smc) \<bind> dB2lin \<bind>
      fl_mul (Scalar (y2_elem (Fin theta) (Fin tau))) = Some (lit S)"
    using e(3) by (simp add: bare_soil_model_Scalar dB2lin_Scalar fl_mul_def soil_elem_def)
  have c: "fl_add (lit V) (lit S) \<bind> lin2dB = Some (Scalar (lin2dB_elem (d_add (Fin V) (Fin S))))"
    by (simp add: fl_add_def lin2dB_Scalar)
  have cm: "cloud_model (lit theta) (lit smc) (lit alpha) (lit tau) =
      Some [(''Canopy'', Scalar (lin2dB_elem (d_add (Fin V) (Fin S)))),
            (''Volume'', Scalar (lin2dB_elem (Fin V))), (''Soil'', Scalar (lin2dB_elem (Fin S)))]"
    by (simp only: cloud_model_Scalar e(1,3))
  from y v s c cm e(2,4,5,6) show ?thesis
    by (simp only: lin2dB_Scalar) blast
qed

lemma canopy_dominates_Arr:
  assumes "\<forall>t \<in> set thetas. 0 < cos t" and "0 \<le> alpha" and "3 * alpha < overflow_threshold"
    and "0 \<le> tau" and "smc \<le> 11000"
  shows "\<exists>cs vs ss.
           cloud_model (Arr (map Fin thetas)) (lit smc) (lit alpha) (lit tau) =
             Some [(''Canopy'', Arr cs), (''Volume'', Arr vs), (''Soil'', Arr ss)] \<and>
           list_all2 f_le vs cs \<and> list_all2 f_le ss cs"
proof -
  have "f_le (lin2dB_elem (volume_elem (Fin t) (Fin alpha) (Fin tau)))
          (lin2dB_elem (d_add (volume_elem (Fin t) (Fin alpha) (Fin tau))
             (soil_elem (Fin t) (Fin smc) (Fin tau)))) \<and>
        f_le (lin2dB_elem (soil_elem (Fin t) (Fin smc) (Fin tau)))
          (lin2dB_elem (d_add (volume_elem (Fin t) (Fin alpha) (Fin tau))
             (soil_elem (Fin t) (Fin smc) (Fin tau))))" if "t \<in> set thetas" for t
  proof -
    from that assms(1) have "0 < cos t"
      by simp
    from canopy_dominates_elem [OF this assms(2-5)] show ?thesis
      by auto
  qed
  then show ?thesis
    by (simp add: cloud_model_Arr list_all2_map1 list_all2_map2 list_all2_same comp_def)
qed

section \<open>The cloud model in the linear domain\<close>



section \<open>The bare-soil formula\<close>

text \<open>
  Claim C2. For every real \<open>theta\<close> and \<open>mv\<close>, \<open>bare_soil_model theta mv\<close> is
  \<open>C_theta + D * mv\<close> with \<open>C_theta = C1 + C2 * cos theta ^ C3\<close>,
  \<open>(C1, C2, C3) = (-29.2, 27.2, 2.8)\<close> and \<open>D = 0.28\<close>, the operations being those of
  floats: where \<open>0 \<le> cos theta\<close> this is the real number
  \<open>C1 + C2 * cos theta powr C3 + D * mv\<close>, and where \<open>cos theta < 0\<close> the power, and
  so the result, is not-a-number. At 45 degrees converted to radians and \<open>mv = 1\<close> the
  result is \<open>-29.2 + 27.2 * cos (pi / 4) powr 2.8 + 0.28\<close>.
\<close>

theorem bare_soil_model_formula:
  "(let (C1, C2, C3) = (- 29.2, 27.2, 2.8); D = 0.28
    in bare_soil_model (lit theta) (lit mv) =
         Some (Scalar (f_add (f_add (Fin C1) (f_mul (Fin C2) (f_power (Fin (cos theta)) (Fin C3))))
                 (f_mul (Fin D) (Fin mv)))) \<and>
       (0 \<le> cos theta \<longrightarrow>
          bare_soil_model (lit theta) (lit mv) = Some (lit (C1 + C2 * cos theta powr C3 + D * mv))) \<and>
       (cos theta < 0 \<longrightarrow> bare_soil_model (lit theta) (lit mv) = Some (Scalar NaN))) \<and>
   bare_soil_model (lit (45 * pi / 180)) (lit 1) =
     Some (lit (- 29.2 + 27.2 * cos (pi / 4) powr 2.8 + 0.28))"
proof -
  have "0 \<le> cos (45 * pi / 180)"
    by (simp add: cos_45)
  then have "bare_soil_model (lit (45 * pi / 180)) (lit 1) =
      Some (lit (- 29.2 + 27.2 * cos (45 * pi / 180) powr 2.8 + 0.28 * 1))"
    by (simp only: bare_soil_model_Scalar bare_soil_elem_Fin)
  moreover have "45 * pi / 180 = pi / 4"
    by simp
  ultimately have inst: "bare_soil_model (lit (45 * pi / 180)) (lit 1) =
      Some (lit (- 29.2 + 27.2 * cos (pi / 4) powr 2.8 + 0.28))"
    by simp
  have gen: "bare_soil_model (lit theta) (lit mv) =
      Some (Scalar (f_add (f_add (Fin (- 29.2)) (f_mul (Fin 27.2) (f_power (Fin (cos theta)) (Fin 2.8))))
              (f_mul (Fin 0.28) (Fin mv))))"
    by (simp only: bare_soil_model_Scalar bare_soil_elem_def f_cos.simps)
  have pos: "0 \<le> cos theta \<longrightarrow>
      bare_soil_model (lit theta) (lit mv) =
        Some (lit (- 29.2 + 27.2 * cos theta powr 2.8 + 0.28 * mv))"
    by (simp add: bare_soil_model_Scalar bare_soil_elem_Fin)
  have neg: "cos theta < 0 \<longrightarrow> bare_soil_model (lit theta) (lit mv) = Some (Scalar NaN)"
    by (simp add: bare_soil_model_Scalar bare_soil_elem_NaN)
  show ?thesis
    unfolding Let_def prod.case using gen pos neg inst by blast
qed

text \<open>At \<open>theta = 0\<close> the cosine is 1 and the result is \<open>-29.2 + 27.2 + 0.28\<close>; at
  \<open>theta = 2\<close> the cosine is negative.\<close>

theorem bare_soil_model_formula_witness:
  "0 \<le> cos (0::real) \<and> bare_soil_model (lit 0) (lit 1) = Some (lit (- 1.72)) \<and>
   cos (2::real) < 0 \<and> bare_soil_model (lit 2) (lit 1) = Some (Scalar NaN)"
  using bare_soil_model_formula [of 0 1] bare_soil_model_formula [of 2 1] cos_two_less_zero
  by (simp add: is_int_def)

section \<open>Unit conversion: round trip\<close>

text \<open>
  Claim C3, amended. Let \<open>x\<close> be a real with \<open>-3070 \<le> x \<le> 3080\<close>, so that
  \<open>10 powr (x / 10)\<close> lies among the normal floats, and let \<open>x\<close> be 0 or
  \<open>x / 10\<close> not underflow. Then \<open>dB2lin\<close> returns \<open>10 powr (x / 10)\<close> on \<open>x\<close>, \<open>lin2dB\<close>
  returns \<open>x\<close> on that, and converting \<open>x\<close> with \<open>dB2lin\<close> and back with
  \<open>lin2dB\<close> returns \<open>x\<close>, in arithmetic without rounding error. On an array of such
  values the round trip returns the array.
\<close>

theorem dB_roundtrip:
  assumes "x = 0 \<or> underflow_threshold < \<bar>x / 10\<bar>" and "- 3070 \<le> x" and "x \<le> 3080"
  shows "dB2lin (lit x) = Some (lit (10 powr (x / 10))) \<and>
         lin2dB (lit (10 powr (x / 10))) = Some (lit x) \<and>
         dB2lin (lit x) \<bind> lin2dB = Some (lit x) \<and>
         ((\<forall>z \<in> set xs. (z = 0 \<or> underflow_threshold < \<bar>z / 10\<bar>) \<and> - 3070 \<le> z \<and> z \<le> 3080) \<longrightarrow>
            dB2lin (Arr (map Fin xs)) \<bind> lin2dB = Some (Arr (map Fin xs)))"
proof -
  note r = dB_range [OF assms]
  have "map (\<lambda>z. lin2dB_elem (dB2lin_elem (Fin z))) xs = map Fin xs"
    if "\<forall>z \<in> set xs. (z = 0 \<or> underflow_threshold < \<bar>z / 10\<bar>) \<and> - 3070 \<le> z \<and> z \<le> 3080"
  proof (intro map_cong refl)
    fix z
    assume "z \<in> set xs"
    with that have "z = 0 \<or> underflow_threshold < \<bar>z / 10\<bar>" "- 3070 \<le> z" "z \<le> 3080"
      by auto
    note rz = dB_range [OF this]
    show "lin2dB_elem (dB2lin_elem (Fin z)) = Fin z"
      by (simp only: dB2lin_elem_Fin [OF rz] lin2dB_elem_powr [OF rz])
  qed
  then show ?thesis
    by (simp add: dB2lin_Scalar lin2dB_Scalar dB2lin_Arr lin2dB_Arr dB2lin_elem_Fin [OF r]
        lin2dB_elem_powr [OF r] comp_def)
qed

text \<open>Ten decibels are the power ratio 10, and back.\<close>

theorem dB_roundtrip_witness:
  "underflow_threshold < \<bar>10 / 10 :: real\<bar> \<and> - 3070 \<le> (10::real) \<and> (10::real) \<le> 3080 \<and>
   dB2lin (lit 10) = Some (lit 10) \<and> lin2dB (lit 10) = Some (lit 10) \<and>
   dB2lin (lit 10) \<bind> lin2dB = Some (lit 10) \<and>
   dB2lin (Arr [Fin 10, Fin 0]) \<bind> lin2dB = Some (Arr [Fin 10, Fin 0])"
proof -
  have u: "underflow_threshold < \<bar>10 / 10 :: real\<bar>"
    using thresholds_one(1) by simp
  then have h: "(10::real) = 0 \<or> underflow_threshold < \<bar>10 / 10 :: real\<bar>"
    "- 3070 \<le> (10::real)" "(10::real) \<le> 3080"
    by simp_all
  have "\<forall>z \<in> set [10, 0 :: real].
      (z = 0 \<or> underflow_threshold < \<bar>z / 10\<bar>) \<and> - 3070 \<le> z \<and> z \<le> 3080"
    using thresholds_one(1) by simp
  with dB_roundtrip [OF h, of "[10, 0]"] u show ?thesis
    by simp
qed

text \<open>
  Without the condition the round trip fails: \<open>10 powr 400\<close> overflows, so 4000
  decibels come back as infinity, and \<open>10 powr (-400)\<close> underflows to zero, so -4000
  decibels come back as negative infinity.
\<close>

theorem dB_roundtrip_counterexample:
  "dB2lin (lit 4000) = Some (Scalar PInf) \<and>
   dB2lin (lit 4000) \<bind> lin2dB = Some (Scalar PInf) \<and>
   dB2lin (lit (- 4000)) = Some (lit 0) \<and>
   dB2lin (lit (- 4000)) \<bind> lin2dB = Some (Scalar NInf)"
proof -
  have 1: "b64 400 = Fin 400" "b64 (- 400) = Fin (- 400)"
    by (rule b64_in_range, rule in_range_moderate, simp, simp)+
  have p: "(10::real) powr 400 = 10 ^ 400"
    by (rule powr_numeral) simp
  have "b64 (10 powr 400) = PInf"
    unfolding p using pow10_400_overflow by (rule b64_overflow)
  then have 4: "dB2lin_elem (Fin 4000) = PInf"
    by (simp add: dB2lin_elem_def d_div_def d_power_def 1 del: powr_numeral)
  have m: "(10::real) powr (- 400) = 1 / 10 ^ 400"
    unfolding powr_minus p by (simp only: divide_inverse mult_1)
  have "\<bar>1 / 10 ^ 400 :: real\<bar> = 1 / 10 ^ 400"
    by (rule abs_of_nonneg) (intro divide_nonneg_nonneg zero_le_power, simp_all)
  with pow10_400_underflow have "\<bar>1 / 10 ^ 400 :: real\<bar> \<le> underflow_threshold"
    by (simp only:)
  then have "b64 (10 powr (- 400)) = Fin 0"
    unfolding m by (rule b64_underflow)
  then have 5: "dB2lin_elem (Fin (- 4000)) = Fin 0"
    by (simp add: dB2lin_elem_def d_div_def d_power_def 1 del: powr_numeral powr_minus)
  show ?thesis
    by (simp add: dB2lin_Scalar lin2dB_Scalar 4 5)
qed

section \<open>No vegetation: optical depth zero\<close>

text \<open>
  Claim C4, amended. Let \<open>0 < cos theta\<close>, let \<open>3 * alpha\<close> not overflow, and let the
  result \<open>s\<close> of \<open>bare_soil_model theta smc\<close> satisfy \<open>-3070 \<le> s \<le> 3080\<close> and
  be 0 or such that \<open>s / 10\<close> does not underflow. Then \<open>cloud_model\<close>
  with \<open>tau = 0\<close> returns \<open>s\<close> under Canopy and under Soil, in arithmetic without
  rounding error, and negative infinity under Volume; the attenuation \<open>y2\<close> it computes
  is 1 and its volume term is 0.
\<close>

theorem cloud_model_tau_zero:
  assumes "0 < cos theta" and "\<bar>3 * alpha\<bar> < overflow_threshold"
    and "bare_soil_model (lit theta) (lit smc) = Some (lit s)"
    and "s = 0 \<or> underflow_threshold < \<bar>s / 10\<bar>" and "- 3070 \<le> s" and "s \<le> 3080"
  shows "cloud_model (lit theta) (lit smc) (lit alpha) (lit 0) =
           Some [(''Canopy'', lit s), (''Volume'', Scalar NInf), (''Soil'', lit s)] \<and>
         map_option np_exp (fl_mul (lit (- 2)) (lit 0) \<bind> (\<lambda>n. fl_div n (np_cos (lit theta)))) =
           Some (lit 1) \<and>
         volume_term (lit alpha) (lit theta) (lit 1) = Some (lit 0)"
proof -
  from assms(1) have nz: "cos theta \<noteq> 0"
    by simp
  note r = dB_range [OF assms(4-6)]
  from assms(3) have bs: "bare_soil_elem (Fin theta) (Fin smc) = Fin s"
    by (simp add: bare_soil_model_Scalar)
  have y2: "y2_elem (Fin theta) (Fin 0) = Fin 1"
    using nz by (rule y2_elem_tau_zero)
  have vol: "volume_elem (Fin theta) (Fin alpha) (Fin 0) = Fin 0"
    using nz assms(2) by (rule volume_elem_tau_zero)
  have lin: "dB2lin_elem (Fin s) = Fin (10 powr (s / 10))"
    using r by (rule dB2lin_elem_Fin)
  have soil: "soil_elem (Fin theta) (Fin smc) (Fin 0) = Fin (10 powr (s / 10))"
    by (simp add: soil_elem_def y2 bs lin d_mul_def b64_in_range [OF r(2)])
  have can: "d_add (Fin 0) (Fin (10 powr (s / 10))) = Fin (10 powr (s / 10))"
    by (simp add: d_add_def b64_in_range [OF r(2)])
  have dB: "lin2dB_elem (Fin (10 powr (s / 10))) = Fin s"
    using r by (rule lin2dB_elem_powr)
  have cm: "cloud_model (lit theta) (lit smc) (lit alpha) (lit 0) =
      Some [(''Canopy'', lit s), (''Volume'', Scalar NInf), (''Soil'', lit s)]"
    by (simp only: cloud_model_Scalar vol soil can dB lin2dB_elem_0)
  have y: "map_option np_exp (fl_mul (lit (- 2)) (lit 0) \<bind> (\<lambda>n. fl_div n (np_cos (lit theta)))) =
      Some (lit 1)"
    using y2 by (simp add: nd_defs y2_elem_def)
  have vt: "volume_term (lit alpha) (lit theta) (lit 1) = Some (lit 0)"
    using vol by (simp add: volume_term_Scalar [of "Fin alpha" "Fin theta" "Fin 0", unfolded y2])
  from cm y vt show ?thesis
    by simp
qed

theorem cloud_model_tau_zero_witness:
  "0 < cos (0::real) \<and> \<bar>3 * (1 / 2) :: real\<bar> < overflow_threshold \<and>
   bare_soil_model (lit 0) (lit 1) = Some (lit (- 1.72)) \<and>
   underflow_threshold < \<bar>- 1.72 / 10 :: real\<bar> \<and> - 3070 \<le> (- 1.72 :: real) \<and>
   (- 1.72 :: real) \<le> 3080 \<and>
   cloud_model (lit 0) (lit 1) (lit (1 / 2)) (lit 0) =
     Some [(''Canopy'', lit (- 1.72)), (''Volume'', Scalar NInf), (''Soil'', lit (- 1.72))]"
proof -
  have 1: "0 < cos (0::real)"
    by simp
  have 2: "\<bar>3 * (1 / 2) :: real\<bar> < overflow_threshold"
    using overflow_threshold_large by simp
  have 3: "bare_soil_model (lit 0) (lit 1) = Some (lit (- 1.72))"
    by (simp add: bare_soil_model_Scalar bare_soil_elem_Fin)
  have 5: "underflow_threshold < \<bar>- 1.72 / 10 :: real\<bar>"
    using underflow_threshold_small by simp
  then have 4: "(- 1.72 :: real) = 0 \<or> underflow_threshold < \<bar>- 1.72 / 10 :: real\<bar>"
    by simp
  have 6: "- 3070 \<le> (- 1.72 :: real)" "(- 1.72 :: real) \<le> 3080"
    by simp_all
  from cloud_model_tau_zero [OF 1 2 3 4 6] 1 2 3 5 6 show ?thesis
    by simp
qed

text \<open>
  Without the bound on \<open>alpha\<close> the statement fails: at \<open>alpha = 10 ^ 308\<close> the
  product \<open>3 * alpha\<close> overflows to infinity, infinity times \<open>1 - y2 = 0\<close> is
  not-a-number, and so are Volume and Canopy.
\<close>

theorem cloud_model_tau_zero_counterexample:
  "0 < cos (0::real) \<and>
   bare_soil_model (lit 0) (lit 0) = Some (lit (- 2)) \<and>
   cloud_model (lit 0) (lit 0) (lit (10 ^ 308)) (lit 0) =
     Some [(''Canopy'', Scalar NaN), (''Volume'', Scalar NaN), (''Soil'', lit (- 2))]"
  using bare_soil_model_0_0 cloud_model_alpha_overflow by (simp only: cos_zero zero_less_one simp_thms)

section \<open>Arrays of angles\<close>

text \<open>
  Claim C5. For an array of \<open>N\<close> angles and scalar \<open>smc\<close>, \<open>alpha\<close>, \<open>tau\<close>,
  \<open>cloud_model\<close> returns a dictionary with exactly the keys Canopy, Volume and Soil,
  each holding an array of length \<open>N\<close>, whose element \<open>i\<close> is what \<open>cloud_model\<close>
  returns under that key on the scalar angle \<open>i\<close>.
\<close>

theorem cloud_model_shape:
  "\<exists>cs vs ss.
     cloud_model (Arr thetas) (Scalar smc) (Scalar alpha) (Scalar tau) =
       Some [(''Canopy'', Arr cs), (''Volume'', Arr vs), (''Soil'', Arr ss)] \<and>
     length cs = length thetas \<and> length vs = length thetas \<and> length ss = length thetas \<and>
     (\<forall>i < length thetas.
        cloud_model (Scalar (thetas ! i)) (Scalar smc) (Scalar alpha) (Scalar tau) =
          Some [(''Canopy'', Scalar (cs ! i)), (''Volume'', Scalar (vs ! i)),
                (''Soil'', Scalar (ss ! i))])"
  by (simp add: cloud_model_Arr cloud_model_Scalar)

theorem cloud_model_shape_witness:
  "\<exists>cs vs ss.
     cloud_model (Arr [Fin 0, Fin 2]) (lit 1) (lit 0) (lit 0) =
       Some [(''Canopy'', Arr cs), (''Volume'', Arr vs), (''Soil'', Arr ss)] \<and>
     length cs = 2 \<and> length vs = 2 \<and> length ss = 2 \<and>
     cloud_model (lit 0) (lit 1) (lit 0) (lit 0) =
       Some [(''Canopy'', Scalar (cs ! 0)), (''Volume'', Scalar (vs ! 0)), (''Soil'', Scalar (ss ! 0))] \<and>
     cloud_model (lit 2) (lit 1) (lit 0) (lit 0) =
       Some [(''Canopy'', Scalar (cs ! 1)), (''Volume'', Scalar (vs ! 1)), (''Soil'', Scalar (ss ! 1))]"
proof -
  from cloud_model_shape [of "[Fin 0, Fin 2]" "Fin 1" "Fin 0" "Fin 0"]
  obtain cs vs ss where
    a: "cloud_model (Arr [Fin 0, Fin 2]) (lit 1) (lit 0) (lit 0) =
          Some [(''Canopy'', Arr cs), (''Volume'', Arr vs), (''Soil'', Arr ss)]" and
    l: "length cs = 2" "length vs = 2" "length ss = 2" and
    e: "\<forall>i < length [Fin 0, Fin 2].
          cloud_model (Scalar ([Fin 0, Fin 2] ! i)) (lit 1) (lit 0) (lit 0) =
            Some [(''Canopy'', Scalar (cs ! i)), (''Volume'', Scalar (vs ! i)),
                  (''Soil'', Scalar (ss ! i))]"
    by auto
  from e have "cloud_model (Scalar ([Fin 0, Fin 2] ! 0)) (lit 1) (lit 0) (lit 0) =
      Some [(''Canopy'', Scalar (cs ! 0)), (''Volume'', Scalar (vs ! 0)), (''Soil'', Scalar (ss ! 0))]"
    by (rule allE [where x = 0]) simp
  moreover from e have "cloud_model (Scalar ([Fin 0, Fin 2] ! 1)) (lit 1) (lit 0) (lit 0) =
      Some [(''Canopy'', Scalar (cs ! 1)), (''Volume'', Scalar (vs ! 1)), (''Soil'', Scalar (ss ! 1))]"
    by (rule allE [where x = 1]) simp
  ultimately show ?thesis
    using a l by auto
qed

section \<open>Monotonicity in soil moisture\<close>

text \<open>
  Claim C6, amended. For every \<open>theta\<close> with \<open>0 \<le> cos theta\<close> and all
  \<open>mv1 \<le> mv2\<close>, the result of \<open>bare_soil_model theta mv1\<close> is less than or equal to
  the result of \<open>bare_soil_model theta mv2\<close>, in the comparison of floats.
\<close>

theorem bare_soil_model_mono:
  assumes "0 \<le> cos theta" and "mv1 \<le> mv2"
  shows "\<exists>s1 s2.
           bare_soil_model (lit theta) (lit mv1) = Some (Scalar s1) \<and>
           bare_soil_model (lit theta) (lit mv2) = Some (Scalar s2) \<and>
           f_le s1 s2"
  using assms by (simp add: bare_soil_model_Scalar bare_soil_elem_Fin)

theorem bare_soil_model_mono_witness:
  "0 \<le> cos (0::real) \<and> (0::real) \<le> 1 \<and>
   bare_soil_model (lit 0) (lit 0) = Some (lit (- 2)) \<and>
   bare_soil_model (lit 0) (lit 1) = Some (lit (- 1.72)) \<and>
   f_le (Fin (- 2)) (Fin (- 1.72))"
proof -
  from bare_soil_model_mono [of 0 0 1] obtain s1 s2 where
    "bare_soil_model (lit 0) (lit 0) = Some (Scalar s1)"
    "bare_soil_model (lit 0) (lit 1) = Some (Scalar s2)" "f_le s1 s2"
    by auto
  moreover have "bare_soil_model (lit 0) (lit 0) = Some (lit (- 2))"
    "bare_soil_model (lit 0) (lit 1) = Some (lit (- 1.72))"
    by (simp_all add: bare_soil_model_Scalar bare_soil_elem_Fin)
  ultimately show ?thesis
    by simp
qed

text \<open>
  Without the condition on the cosine the statement fails: at \<open>theta = 2\<close> (radians) the
  cosine is negative, both results are not-a-number, and \<^verbatim>\<open>nan <= nan\<close> is false.
\<close>

theorem bare_soil_model_mono_counterexample:
  "(0::real) \<le> 1 \<and>
   bare_soil_model (lit 2) (lit 0) = Some (Scalar NaN) \<and>
   bare_soil_model (lit 2) (lit 1) = Some (Scalar NaN) \<and>
   \<not> f_le NaN NaN"
  using cos_two_less_zero by (simp add: bare_soil_model_Scalar bare_soil_elem_NaN)

section \<open>Logarithm of zero and of negative numbers\<close>

text \<open>
  Claim C7, amended. \<open>lin2dB\<close> returns negative infinity on 0 and not-a-number on a
  negative number, and raises no error on any float or array of floats; with
  \<open>alpha = 0\<close>, \<open>0 < cos theta\<close> and \<open>0 \<le> tau\<close>, the Volume component of
  \<open>cloud_model\<close> is negative infinity and the call returns its dictionary.
\<close>

theorem lin2dB_edge_values:
  "lin2dB (lit 0) = Some (Scalar NInf) \<and>
   (x < 0 \<longrightarrow> lin2dB (lit x) = Some (Scalar NaN)) \<and>
   lin2dB v \<noteq> None \<and>
   (0 < cos theta \<and> 0 \<le> tau \<longrightarrow>
      (\<exists>canopy soil.
         cloud_model (lit theta) (lit smc) (lit 0) (lit tau) =
           Some [(''Canopy'', canopy), (''Volume'', Scalar NInf), (''Soil'', soil)]))"
proof -
  have "lin2dB v \<noteq> None"
    by (cases v) (simp_all add: lin2dB_Scalar lin2dB_Arr)
  then show ?thesis
    by (simp add: lin2dB_Scalar lin2dB_elem_neg cloud_model_Scalar volume_elem_alpha_zero)
qed

theorem lin2dB_edge_values_witness:
  "(- 1 :: real) < 0 \<and> lin2dB (lit (- 1)) = Some (Scalar NaN) \<and>
   0 < cos (0::real) \<and> (0::real) \<le> 1 \<and>
   (\<exists>canopy soil.
      cloud_model (lit 0) (lit 1) (lit 0) (lit 1) =
        Some [(''Canopy'', canopy), (''Volume'', Scalar NInf), (''Soil'', soil)])"
  using lin2dB_edge_values [of "- 1" "lit 0" 0 1 1] by simp

text \<open>
  Without the conditions on \<open>theta\<close> and \<open>tau\<close> the last part fails: at \<open>theta = 2\<close>
  and \<open>tau = 1000\<close> the attenuation \<open>exp (-2000 / cos 2)\<close> overflows to infinity,
  \<open>1 - y2\<close> is negative infinity, and zero times it is not-a-number.
\<close>

theorem lin2dB_edge_values_counterexample:
  "cloud_model (lit 2) (lit 1) (lit 0) (lit 1000) =
     Some [(''Canopy'', Scalar NaN), (''Volume'', Scalar NaN), (''Soil'', Scalar NaN)]"
proof -
  have vol: "volume_elem (Fin 2) (Fin 0) (Fin 1000) = NaN"
    by (simp add: volume_elem_def y2_elem_overflow d_mul_def d_div_def d_sub_def f_sub_def
        inf_of_sign_def)
  have "bare_soil_elem (Fin 2) (Fin 1) = NaN"
    by (rule bare_soil_elem_NaN) simp
  then have soil: "soil_elem (Fin 2) (Fin 1) (Fin 1000) = NaN"
    by (simp add: soil_elem_def y2_elem_overflow dB2lin_elem_def d_div_def d_power_def d_mul_def)
  show ?thesis
    by (simp add: cloud_model_Scalar vol soil d_add_def)
qed

section \<open>What the components depend on\<close>

text \<open>
  Whatever the arguments are, scalars or arrays, a call that returns holds under Volume
  the result of a computation that does not mention \<open>smc\<close>, and under Soil the result
  of one that does not mention \<open>alpha\<close>.
\<close>

lemma cloud_model_Volume:
  assumes "cloud_model theta smc alpha tau = Some d"
  shows "do {
           n \<leftarrow> fl_mul (lit (- 2)) tau;
           q \<leftarrow> fl_div n (np_cos theta);
           v \<leftarrow> volume_term alpha theta (np_exp q);
           lin2dB v
         } = map_of d ''Volume''"
  using assms
  by (auto simp: cloud_model_def Let_def split: bind_splits)

lemma cloud_model_Soil:
  assumes "cloud_model theta smc alpha tau = Some d"
  shows "do {
           n \<leftarrow> fl_mul (lit (- 2)) tau;
           q \<leftarrow> fl_div n (np_cos theta);
           sigma0_soil_dB \<leftarrow> bare_soil_model theta smc;
           sigma0_soil_linear \<leftarrow> dB2lin sigma0_soil_dB;
           s \<leftarrow> fl_mul (np_exp q) sigma0_soil_linear;
           lin2dB s
         } = map_of d ''Soil''"
  using assms
  by (auto simp: cloud_model_def Let_def split: bind_splits)

text \<open>
  Claim C9. Two calls of \<open>cloud_model\<close> that differ only in \<open>smc\<close> and both return
  hold the same Volume component, and two calls that differ only in \<open>alpha\<close> and both
  return hold the same Soil component (the same floats, also where they are
  not-a-number); with scalar \<open>smc\<close>, \<open>alpha\<close> and \<open>tau\<close> the call returns for
  every angle or array of angles.
\<close>

theorem cloud_model_independence:
  "(cloud_model theta smc1 alpha tau = Some d1 \<longrightarrow>
    cloud_model theta smc2 alpha tau = Some d2 \<longrightarrow>
      (\<exists>v. map_of d1 ''Volume'' = Some v \<and> map_of d2 ''Volume'' = Some v)) \<and>
   (cloud_model theta smc alpha1 tau = Some e1 \<longrightarrow>
    cloud_model theta smc alpha2 tau = Some e2 \<longrightarrow>
      (\<exists>s. map_of e1 ''Soil'' = Some s \<and> map_of e2 ''Soil'' = Some s)) \<and>
   (\<exists>d. cloud_model theta (Scalar m) (Scalar a) (Scalar t) = Some d)"
proof (intro conjI impI)
  assume 1: "cloud_model theta smc1 alpha tau = Some d1"
    and 2: "cloud_model theta smc2 alpha tau = Some d2"
  from 1 have "map_of d1 ''Volume'' \<noteq> None"
    by (auto simp: cloud_model_def Let_def split: bind_splits)
  moreover have "map_of d1 ''Volume'' = map_of d2 ''Volume''"
    using cloud_model_Volume [OF 1] cloud_model_Volume [OF 2] by simp
  ultimately show "\<exists>v. map_of d1 ''Volume'' = Some v \<and> map_of d2 ''Volume'' = Some v"
    by auto
next
  assume 1: "cloud_model theta smc alpha1 tau = Some e1"
    and 2: "cloud_model theta smc alpha2 tau = Some e2"
  from 1 have "map_of e1 ''Soil'' \<noteq> None"
    by (auto simp: cloud_model_def Let_def split: bind_splits)
  moreover have "map_of e1 ''Soil'' = map_of e2 ''Soil''"
    using cloud_model_Soil [OF 1] cloud_model_Soil [OF 2] by simp
  ultimately show "\<exists>s. map_of e1 ''Soil'' = Some s \<and> map_of e2 ''Soil'' = Some s"
    by auto
next
  show "\<exists>d. cloud_model theta (Scalar m) (Scalar a) (Scalar t) = Some d"
    by (cases theta) (simp_all add: cloud_model_Scalar cloud_model_Arr)
qed

theorem cloud_model_independence_witness:
  "\<exists>d1 d2 e1 e2 v s.
     cloud_model (Arr [Fin 0, Fin 2]) (lit 0) (lit 1) (lit 1) = Some d1 \<and>
     cloud_model (Arr [Fin 0, Fin 2]) (lit 5) (lit 1) (lit 1) = Some d2 \<and>
     map_of d1 ''Volume'' = Some v \<and> map_of d2 ''Volume'' = Some v \<and>
     cloud_model (Arr [Fin 0, Fin 2]) (lit 5) (lit 0) (lit 1) = Some e1 \<and>
     cloud_model (Arr [Fin 0, Fin 2]) (lit 5) (lit 1) (lit 1) = Some e2 \<and>
     map_of e1 ''Soil'' = Some s \<and> map_of e2 ''Soil'' = Some s"
proof -
  obtain d1 where d1: "cloud_model (Arr [Fin 0, Fin 2]) (lit 0) (lit 1) (lit 1) = Some d1"
    by (simp add: cloud_model_Arr)
  obtain d2 where d2: "cloud_model (Arr [Fin 0, Fin 2]) (lit 5) (lit 1) (lit 1) = Some d2"
    by (simp add: cloud_model_Arr)
  obtain e1 where e1: "cloud_model (Arr [Fin 0, Fin 2]) (lit 5) (lit 0) (lit 1) = Some e1"
    by (simp add: cloud_model_Arr)
  note ind = cloud_model_independence
    [of "Arr [Fin 0, Fin 2]" "lit 0" "lit 1" "lit 1" d1 "lit 5" d2 "lit 5" "lit 0" e1 "lit 1" d2]
  from ind d1 d2 obtain v where "map_of d1 ''Volume'' = Some v" "map_of d2 ''Volume'' = Some v"
    by blast
  moreover from ind e1 d2 obtain s where "map_of e1 ''Soil'' = Some s" "map_of d2 ''Soil'' = Some s"
    by blast
  ultimately show ?thesis
    using d1 d2 e1 by blast
qed

section \<open>The canopy dominates its terms\<close>

text \<open>
  Claim C10, amended. Let \<open>0 \<le> alpha\<close> with \<open>3 * alpha\<close> not overflowing,
  \<open>0 \<le> tau\<close> and \<open>smc \<le> 11000\<close> (so that the linear value of the bare-soil result
  does not overflow). Then for every \<open>theta\<close> with \<open>0 < cos theta\<close> the linear
  Volume and Soil terms that \<open>cloud_model\<close> computes are finite and not negative, and
  the Canopy result in decibels is greater than or equal to the Volume result and to
  the Soil result, in the comparison of floats; on an array of such angles this holds
  element by element.
\<close>

theorem cloud_model_canopy_dominates:
  assumes "0 \<le> alpha" and "3 * alpha < overflow_threshold" and "0 \<le> tau" and "smc \<le> 11000"
  shows "(0 < cos theta \<longrightarrow>
           (\<exists>y2 V S canopy volume soil.
              map_option np_exp (fl_mul (lit (- 2)) (lit tau) \<bind> (\<lambda>n. fl_div n (np_cos (lit theta)))) =
                Some y2 \<and>
              volume_term (lit alpha) (lit theta) y2 = Some (lit V) \<and> 0 \<le> V \<and>
              bare_soil_model (lit theta) (lit smc) \<bind> dB2lin \<bind> fl_mul y2 = Some (lit S) \<and> 0 \<le> S \<and>
              lin2dB (lit V) = Some (Scalar volume) \<and>
              lin2dB (lit S) = Some (Scalar soil) \<and>
              fl_add (lit V) (lit S) \<bind> lin2dB = Some (Scalar canopy) \<and>
              cloud_model (lit theta) (lit smc) (lit alpha) (lit tau) =
                Some [(''Canopy'', Scalar canopy), (''Volume'', Scalar volume),
                      (''Soil'', Scalar soil)] \<and>
              f_le volume canopy \<and> f_le soil canopy)) \<and>
         ((\<forall>t \<in> set thetas. 0 < cos t) \<longrightarrow>
            (\<exists>cs vs ss.
               cloud_model (Arr (map Fin thetas)) (lit smc) (lit alpha) (lit tau) =
                 Some [(''Canopy'', Arr cs), (''Volume'', Arr vs), (''Soil'', Arr ss)] \<and>
               list_all2 f_le vs cs \<and> list_all2 f_le ss cs))"
  using canopy_dominates_Scalar [OF _ assms] canopy_dominates_Arr [OF _ assms] by blast

theorem cloud_model_canopy_dominates_witness:
  "(0::real) \<le> 1 \<and> 3 * 1 < overflow_threshold \<and> (0::real) \<le> 11000 \<and> 0 < cos (0::real) \<and>
   (\<exists>canopy volume soil.
      cloud_model (lit 0) (lit 0) (lit 1) (lit 1) =
        Some [(''Canopy'', Scalar canopy), (''Volume'', Scalar volume), (''Soil'', Scalar soil)] \<and>
      f_le volume canopy \<and> f_le soil canopy) \<and>
   0 < cos (1 / 2 :: real) \<and>
   (\<exists>cs vs ss.
      cloud_model (Arr [Fin 0, Fin (1 / 2)]) (lit 0) (lit 1) (lit 1) =
        Some [(''Canopy'', Arr cs), (''Volume'', Arr vs), (''Soil'', Arr ss)] \<and>
      list_all2 f_le vs cs \<and> list_all2 f_le ss cs)"
proof -
  have z: "(0::real) \<le> 1"
    by simp
  have a: "3 * 1 < overflow_threshold"
    using overflow_threshold_large by simp
  have m: "(0::real) \<le> 11000"
    by simp
  have half: "0 < cos (1 / 2 :: real)"
    using pi_ge_two by (intro cos_gt_zero) simp_all
  have pos: "\<forall>t \<in> set [0, 1 / 2 :: real]. 0 < cos t"
    using half by simp
  note inst = cloud_model_canopy_dominates [OF z a z m, of 0 "[0, 1 / 2]"]
  from inst have scalar: "\<exists>canopy volume soil.
      cloud_model (lit 0) (lit 0) (lit 1) (lit 1) =
        Some [(''Canopy'', Scalar canopy), (''Volume'', Scalar volume), (''Soil'', Scalar soil)] \<and>
      f_le volume canopy \<and> f_le soil canopy"
    by (simp only: cos_zero zero_less_one simp_thms) blast
  from inst pos have array: "\<exists>cs vs ss.
      cloud_model (Arr (map Fin [0, 1 / 2])) (lit 0) (lit 1) (lit 1) =
        Some [(''Canopy'', Arr cs), (''Volume'', Arr vs), (''Soil'', Arr ss)] \<and>
      list_all2 f_le vs cs \<and> list_all2 f_le ss cs"
    by blast
  from scalar array half a show ?thesis
    by simp
qed

text \<open>
  Without the bound on \<open>alpha\<close> the statement fails: at \<open>alpha = 10 ^ 308\<close> and
  \<open>tau = 0\<close> Volume and Canopy are not-a-number, and no comparison with not-a-number
  holds.
\<close>

theorem cloud_model_canopy_dominates_counterexample:
  "0 < cos (0::real) \<and> cos (0::real) \<le> 1 \<and> (0::real) \<le> 10 ^ 308 \<and> (0::real) \<le> 0 \<and>
   cloud_model (lit 0) (lit 0) (lit (10 ^ 308)) (lit 0) =
     Some [(''Canopy'', Scalar NaN), (''Volume'', Scalar NaN), (''Soil'', lit (- 2))] \<and>
   \<not> f_le NaN NaN \<and> \<not> f_le (Fin (- 2)) NaN"
  using cloud_model_alpha_overflow
  by (simp only: cos_zero zero_less_one order_refl zero_le_power zero_le_numeral f_le.simps
      simp_thms)

end
